theory Spec2Isabelle
  imports Main "HOL-Library.Word"
begin

unbundle bit_operations_syntax

section \<open>Machine integers of the AVR target\<close>

text \<open>
  The library is AVR code (\<open>SREG\<close>, \<open>PCICR\<close>, \<open>ISR\<close>): \<open>uint8_t\<close> is an 8-bit word and
  \<open>int\<close>, the type every operand of \<open>&\<close>, \<open>|\<close>, \<open>^\<close> and \<open>~\<close> is promoted to, has 16 bits.
  The promotion of a \<open>uint8_t\<close> keeps its value (the upper byte is zero), the conversion
  back to \<open>uint8_t\<close> keeps the lower byte.
\<close>

type_synonym u8 = "8 word"
type_synonym cint = "16 word"

definition to_int :: "u8 \<Rightarrow> cint" where
  "to_int x = ucast x"

definition to_u8 :: "cint \<Rightarrow> u8" where
  "to_u8 x = ucast x"

text \<open>avr-libc's \<open>_BV(bit)\<close> is \<open>(1 << (bit))\<close>, an \<open>int\<close>.\<close>

definition BV :: "nat \<Rightarrow> cint" where
  "BV n = push_bit n 1"

section \<open>Port group state\<close>

text \<open>
  \<open>class PcIntPort\<close>: \<open>funcs[8]\<close> and \<open>args[8]\<close> are lists, a null function pointer and a
  null \<open>void*\<close> are \<open>None\<close>. The type \<open>'f\<close> names the callbacks, \<open>'a\<close> the objects a user
  argument can point to.
\<close>

record ('f, 'a) PcIntPort =
  funcs :: "'f option list"
  args :: "'a option list"
  state :: u8
  rising :: u8
  falling :: u8

text \<open>The four global instances; a value of this type is the address of one of them.\<close>

datatype port_ref = port0 | port1 | port2 | port3

text \<open>
  What the headers that are not part of the sources fix at compile time: which of
  \<open>PCINT_INPUT_PORT0\<close> .. \<open>PCINT_INPUT_PORT3\<close> the board file defines, the pin map macros
  of the Arduino core (a null register pointer is \<open>None\<close>), and the values of the mode
  constants \<open>RISING\<close>, \<open>FALLING\<close> and \<open>CHANGE\<close>.
\<close>

record board =
  PCINT_INPUT_PORT_defined :: "port_ref \<Rightarrow> bool"
  digitalPinToPCICR :: "u8 \<Rightarrow> nat option"
  digitalPinToPCMSK :: "u8 \<Rightarrow> nat option"
  digitalPinToPCICRbit :: "u8 \<Rightarrow> u8"
  digitalPinToPCMSKbit :: "u8 \<Rightarrow> u8"
  RISING :: u8
  FALLING :: u8
  CHANGE :: u8

text \<open>
  The machine: the four port objects, the I/O registers that \<open>pcicr\<close> and \<open>pcmsk\<close> point
  into (a store from addresses to bytes, so that two pointers to one register alias), the
  value each \<open>PCINT_INPUT_PORTn\<close> expression reads at this moment, and the status
  register.
\<close>

record ('f, 'a) machine =
  ports :: "port_ref \<Rightarrow> ('f, 'a) PcIntPort"
  regs :: "nat \<Rightarrow> u8"
  pin_register :: "port_ref \<Rightarrow> u8"
  SREG :: u8

definition upd_port ::
  "port_ref \<Rightarrow> (('f, 'a) PcIntPort \<Rightarrow> ('f, 'a) PcIntPort) \<Rightarrow> ('f, 'a) machine \<Rightarrow> ('f, 'a) machine" where
  "upd_port port f s = s\<lparr>ports := (ports s)(port := f (ports s port))\<rparr>"

text \<open>
  The globals \<open>PcIntPort port0;\<close> .. \<open>port3\<close> have static storage: their bytes are zero
  before the constructor runs. The constructor's initialiser list names \<open>funcs\<close>, \<open>state\<close>,
  \<open>rising\<close> and \<open>falling\<close>; it does not name \<open>args\<close>, which keeps what the storage held.
\<close>

definition static_storage :: "('f, 'a) PcIntPort" where
  "static_storage =
     \<lparr>funcs = replicate 8 None, args = replicate 8 None, state = 0, rising = 0, falling = 0\<rparr>"

definition PcIntPort_ctor :: "('f, 'a) PcIntPort \<Rightarrow> ('f, 'a) PcIntPort" where
  "PcIntPort_ctor storage =
     storage\<lparr>funcs := [None, None, None, None, None, None, None, None],
             state := 0, rising := 0, falling := 0\<rparr>"

definition port_instance :: "('f, 'a) PcIntPort" where
  "port_instance = PcIntPort_ctor static_storage"

section \<open>The edge dispatcher\<close>

text \<open>
  One callback invocation: the slot it came from, the function called and the two
  arguments passed.
\<close>

record ('f, 'a) invocation =
  slot :: nat
  callee :: "'f"
  argument :: "'a option"
  level :: bool

text \<open>
  Callbacks are user code: what calling \<open>f\<close> with an argument and a level does to the
  machine is a parameter of the dispatcher.
\<close>

type_synonym ('f, 'a) callbacks =
  "'f \<Rightarrow> 'a option \<Rightarrow> bool \<Rightarrow> ('f, 'a) machine \<Rightarrow> ('f, 'a) machine"

text \<open>The line \<open>uint8_t trigger_pins = ...\<close> of \<open>IMPLEMENT_ISR\<close>, evaluated in \<open>int\<close>.\<close>

definition trigger_pins :: "('f, 'a) PcIntPort \<Rightarrow> u8 \<Rightarrow> u8" where
  "trigger_pins port new_state =
     to_u8 ((to_int (state port) XOR to_int new_state)
            AND ((to_int (rising port) AND to_int new_state)
                 OR (to_int (falling port) AND NOT (to_int new_state))))"

text \<open>
  The \<open>for\<close> loop of \<open>IMPLEMENT_ISR\<close> from \<open>nr\<close> on. \<open>port.funcs[nr]\<close> and \<open>port.args[nr]\<close>
  are read from the machine as the callbacks run so far have left it; the list of
  invocations made so far is carried along.
\<close>

function isr_loop ::
  "('f, 'a) callbacks \<Rightarrow> port_ref \<Rightarrow> u8 \<Rightarrow> u8 \<Rightarrow> nat \<Rightarrow>
   ('f, 'a) machine \<times> ('f, 'a) invocation list \<Rightarrow> ('f, 'a) machine \<times> ('f, 'a) invocation list" where
  "isr_loop call port trig new_state nr (s, tr) =
     (if nr < 8 then
        (if to_int trig AND BV nr \<noteq> 0 \<and> funcs (ports s port) ! nr \<noteq> None then
           isr_loop call port trig new_state (nr + 1)
             (call (the (funcs (ports s port) ! nr)) (args (ports s port) ! nr)
                   (BV nr AND to_int new_state \<noteq> 0) s,
              tr @ [\<lparr>slot = nr, callee = the (funcs (ports s port) ! nr),
                      argument = args (ports s port) ! nr,
                      level = (BV nr AND to_int new_state \<noteq> 0)\<rparr>])
         else isr_loop call port trig new_state (nr + 1) (s, tr))
      else (s, tr))"
  by pat_completeness auto
termination
  by (relation "measure (\<lambda>(call, port, trig, new_state, nr, acc). 8 - nr)") auto

declare isr_loop.simps [simp del]

text \<open>The handler body \<open>ISR(isr_vect)\<close> that \<open>IMPLEMENT_ISR\<close> makes for one port.\<close>

definition ISR ::
  "('f, 'a) callbacks \<Rightarrow> port_ref \<Rightarrow> ('f, 'a) machine \<Rightarrow>
   ('f, 'a) machine \<times> ('f, 'a) invocation list" where
  "ISR call port s =
     (let new_state = pin_register s port;
          trig = trigger_pins (ports s port) new_state;
          s1 = upd_port port (\<lambda>p. p\<lparr>state := new_state\<rparr>) s
      in isr_loop call port trig new_state 0 (s1, []))"

section \<open>The registration functions\<close>

text \<open>
  \<open>get_port\<close> and \<open>get_port_value\<close>: a \<open>case\<close> of the \<open>switch\<close> exists only where the
  board file defines the port's input register; everything else falls to \<open>default\<close>.
\<close>

definition get_port :: "board \<Rightarrow> u8 \<Rightarrow> port_ref option" where
  "get_port b port =
     (if port = 0 \<and> PCINT_INPUT_PORT_defined b port0 then Some port0
      else if port = 1 \<and> PCINT_INPUT_PORT_defined b port1 then Some port1
      else if port = 2 \<and> PCINT_INPUT_PORT_defined b port2 then Some port2
      else if port = 3 \<and> PCINT_INPUT_PORT_defined b port3 then Some port3
      else None)"

definition get_port_value :: "board \<Rightarrow> ('f, 'a) machine \<Rightarrow> u8 \<Rightarrow> u8" where
  "get_port_value b s port =
     (if port = 0 \<and> PCINT_INPUT_PORT_defined b port0 then pin_register s port0
      else if port = 1 \<and> PCINT_INPUT_PORT_defined b port1 then pin_register s port1
      else if port = 2 \<and> PCINT_INPUT_PORT_defined b port2 then pin_register s port2
      else if port = 3 \<and> PCINT_INPUT_PORT_defined b port3 then pin_register s port3
      else 0)"

text \<open>
  \<open>noInterrupts()\<close> is \<open>cli\<close>: it clears the I flag, bit 7 of \<open>SREG\<close>. The macro
  \<open>WITHOUT_INTERRUPTION\<close> saves \<open>SREG\<close>, clears the flag, runs the code and writes the saved
  value back.
\<close>

definition noInterrupts :: "('f, 'a) machine \<Rightarrow> ('f, 'a) machine" where
  "noInterrupts s = s\<lparr>SREG := unset_bit 7 (SREG s)\<rparr>"

definition WITHOUT_INTERRUPTION ::
  "(('f, 'a) machine \<Rightarrow> ('f, 'a) machine) \<Rightarrow> ('f, 'a) machine \<Rightarrow> ('f, 'a) machine" where
  "WITHOUT_INTERRUPTION CODE s =
     (let sreg = SREG s;
          s1 = noInterrupts s;
          s2 = CODE s1
      in s2\<lparr>SREG := sreg\<rparr>)"

text \<open>
  The four functions return \<open>void\<close>; the model returns the machine they leave. An index
  \<open>portBit\<close> of 8 or more would read or write past the end of \<open>funcs[8]\<close> and \<open>args[8]\<close>,
  which C++ leaves undefined: there the model returns \<open>None\<close>. The guard
  \<open>if (pcicr && pcmsk && port && func)\<close> is evaluated left to right and stops at the
  first null pointer.
\<close>

definition attachInterrupt ::
  "board \<Rightarrow> u8 \<Rightarrow> 'f option \<Rightarrow> 'a option \<Rightarrow> u8 \<Rightarrow> ('f, 'a) machine \<Rightarrow> ('f, 'a) machine option" where
  "attachInterrupt b pin func arg mode s =
     (let pcicr = digitalPinToPCICR b pin;
          pcmsk = digitalPinToPCMSK b pin;
          portGroup = digitalPinToPCICRbit b pin;
          portBit = digitalPinToPCMSKbit b pin;
          portBitMask = to_u8 (BV (unat portBit));
          port = get_port b portGroup
      in if pcicr \<noteq> None \<and> pcmsk \<noteq> None \<and> port \<noteq> None \<and> func \<noteq> None then
           if unat portBit < 8 then
             Some (WITHOUT_INTERRUPTION (\<lambda>s0.
               let s1 = upd_port (the port) (\<lambda>p. p\<lparr>funcs := (funcs p)[unat portBit := func]\<rparr>) s0;
                   s2 = upd_port (the port) (\<lambda>p. p\<lparr>args := (args p)[unat portBit := arg]\<rparr>) s1;
                   s3 = upd_port (the port) (\<lambda>p. p\<lparr>rising :=
                          (if mode = RISING b \<or> mode = CHANGE b
                           then to_u8 (to_int (rising p) OR to_int portBitMask)
                           else to_u8 (to_int (rising p) AND NOT (to_int portBitMask)))\<rparr>) s2;
                   s4 = upd_port (the port) (\<lambda>p. p\<lparr>falling :=
                          (if mode = FALLING b \<or> mode = CHANGE b
                           then to_u8 (to_int (falling p) OR to_int portBitMask)
                           else to_u8 (to_int (falling p) AND NOT (to_int portBitMask)))\<rparr>) s3;
                   s5 = s4\<lparr>regs := (regs s4)(the pcmsk :=
                          to_u8 (to_int (regs s4 (the pcmsk)) OR to_int portBitMask))\<rparr>;
                   s6 = s5\<lparr>regs := (regs s5)(the pcicr :=
                          to_u8 (to_int (regs s5 (the pcicr))
                                 OR BV (unat (digitalPinToPCICRbit b pin))))\<rparr>
               in upd_port (the port) (\<lambda>p. p\<lparr>state :=
                    to_u8 ((to_int (state p) AND NOT (to_int portBitMask))
                           OR (to_int (get_port_value b s6 portGroup) AND to_int portBitMask))\<rparr>) s6) s)
           else None
         else Some s)"

definition detachInterrupt ::
  "board \<Rightarrow> u8 \<Rightarrow> ('f, 'a) machine \<Rightarrow> ('f, 'a) machine option" where
  "detachInterrupt b pin s =
     (let pcicr = digitalPinToPCICR b pin;
          pcmsk = digitalPinToPCMSK b pin;
          portGroup = digitalPinToPCICRbit b pin;
          portBit = digitalPinToPCMSKbit b pin;
          portBitMask = to_u8 (BV (unat portBit));
          port = get_port b portGroup
      in if pcicr \<noteq> None \<and> pcmsk \<noteq> None \<and> port \<noteq> None then
           if unat portBit < 8 then
             Some (WITHOUT_INTERRUPTION (\<lambda>s0.
               let s1 = upd_port (the port) (\<lambda>p. p\<lparr>funcs := (funcs p)[unat portBit := None]\<rparr>) s0;
                   s2 = upd_port (the port) (\<lambda>p. p\<lparr>args := (args p)[unat portBit := None]\<rparr>) s1;
                   s3 = upd_port (the port) (\<lambda>p. p\<lparr>rising :=
                          to_u8 (to_int (rising p) AND NOT (to_int portBitMask))\<rparr>) s2;
                   s4 = upd_port (the port) (\<lambda>p. p\<lparr>falling :=
                          to_u8 (to_int (falling p) AND NOT (to_int portBitMask))\<rparr>) s3;
                   s5 = s4\<lparr>regs := (regs s4)(the pcmsk :=
                          to_u8 (to_int (regs s4 (the pcmsk)) AND NOT (to_int portBitMask)))\<rparr>
               in if regs s5 (the pcmsk) = 0 then
                    s5\<lparr>regs := (regs s5)(the pcicr :=
                          to_u8 (to_int (regs s5 (the pcicr))
                                 AND NOT (BV (unat (digitalPinToPCICRbit b pin)))))\<rparr>
                  else s5) s)
           else None
         else Some s)"

definition enableInterrupt ::
  "board \<Rightarrow> u8 \<Rightarrow> ('f, 'a) machine \<Rightarrow> ('f, 'a) machine option" where
  "enableInterrupt b pin s =
     (let pcicr = digitalPinToPCICR b pin;
          pcmsk = digitalPinToPCMSK b pin;
          portGroup = digitalPinToPCICRbit b pin;
          portBit = digitalPinToPCMSKbit b pin;
          portBitMask = to_u8 (BV (unat portBit));
          port = get_port b portGroup
      in if pcicr \<noteq> None \<and> pcmsk \<noteq> None \<and> port \<noteq> None then
           if unat portBit < 8 then
             if funcs (ports s (the port)) ! unat portBit \<noteq> None then
               Some (WITHOUT_INTERRUPTION (\<lambda>s0.
                 let s1 = s0\<lparr>regs := (regs s0)(the pcmsk :=
                            to_u8 (to_int (regs s0 (the pcmsk)) OR to_int portBitMask))\<rparr>;
                     s2 = s1\<lparr>regs := (regs s1)(the pcicr :=
                            to_u8 (to_int (regs s1 (the pcicr))
                                   OR BV (unat (digitalPinToPCICRbit b pin))))\<rparr>
                 in upd_port (the port) (\<lambda>p. p\<lparr>state :=
                      to_u8 ((to_int (state p) AND NOT (to_int portBitMask))
                             OR (to_int (get_port_value b s2 portGroup) AND to_int portBitMask))\<rparr>) s2) s)
             else Some s
           else None
         else Some s)"

definition disableInterrupt ::
  "board \<Rightarrow> u8 \<Rightarrow> ('f, 'a) machine \<Rightarrow> ('f, 'a) machine option" where
  "disableInterrupt b pin s =
     (let pcicr = digitalPinToPCICR b pin;
          pcmsk = digitalPinToPCMSK b pin;
          portGroup = digitalPinToPCICRbit b pin;
          portBit = digitalPinToPCMSKbit b pin;
          portBitMask = to_u8 (BV (unat portBit));
          port = get_port b portGroup
      in if pcicr \<noteq> None \<and> pcmsk \<noteq> None \<and> port \<noteq> None then
           Some (WITHOUT_INTERRUPTION (\<lambda>s0.
             let s1 = s0\<lparr>regs := (regs s0)(the pcmsk :=
                        to_u8 (to_int (regs s0 (the pcmsk)) AND NOT (to_int portBitMask)))\<rparr>
             in if regs s1 (the pcmsk) = 0 then
                  s1\<lparr>regs := (regs s1)(the pcicr :=
                        to_u8 (to_int (regs s1 (the pcicr))
                               AND NOT (BV (unat (digitalPinToPCICRbit b pin)))))\<rparr>
                else s1) s)
         else Some s)"

section \<open>What the design document says a dispatcher run delivers\<close>

text \<open>
  Step 5 of the dispatcher as the design document words it, to compare the handler with:
  the positions from \<open>k\<close> up to 7 in ascending order whose trigger bit is set and whose slot
  holds a callback, each with the slot's callback and argument and the level of its bit
  in the new value.
\<close>

definition spec_invocations ::
  "('f, 'a) PcIntPort \<Rightarrow> u8 \<Rightarrow> u8 \<Rightarrow> nat \<Rightarrow> ('f, 'a) invocation list" where
  "spec_invocations p trig new_value k =
     map (\<lambda>nr. \<lparr>slot = nr, callee = the (funcs p ! nr), argument = args p ! nr,
                level = bit new_value nr\<rparr>)
         (filter (\<lambda>nr. bit trig nr \<and> funcs p ! nr \<noteq> None) [k..<8])"

text \<open>
  The same step for one position, read off the machine as it is when the position is
  reached: what the handler does at position \<open>nr\<close> when callbacks may have changed the
  table in between.
\<close>

definition spec_step ::
  "('f, 'a) callbacks \<Rightarrow> port_ref \<Rightarrow> u8 \<Rightarrow> u8 \<Rightarrow> nat \<Rightarrow>
   ('f, 'a) machine \<times> ('f, 'a) invocation list \<Rightarrow> ('f, 'a) machine \<times> ('f, 'a) invocation list" where
  "spec_step call port trig new_value nr acc =
     (let s = fst acc; tr = snd acc
      in if bit trig nr \<and> funcs (ports s port) ! nr \<noteq> None
         then (call (the (funcs (ports s port) ! nr)) (args (ports s port) ! nr)
                 (bit new_value nr) s,
               tr @ [\<lparr>slot = nr, callee = the (funcs (ports s port) ! nr),
                       argument = args (ports s port) ! nr, level = bit new_value nr\<rparr>])
         else (s, tr))"

text \<open>Making a list of invocations one after the other, each exactly once.\<close>

definition run_callbacks ::
  "('f, 'a) callbacks \<Rightarrow> ('f, 'a) invocation list \<Rightarrow> ('f, 'a) machine \<Rightarrow> ('f, 'a) machine" where
  "run_callbacks call tr s = foldl (\<lambda>t i. call (callee i) (argument i) (level i) t) s tr"

section \<open>The critical section, statement by statement\<close>

text \<open>
  The seven assignments inside \<open>WITHOUT_INTERRUPTION\<close> in \<open>attachInterrupt\<close> (lines 148 to
  156), in the order of the source, each as what it does to the machine. They are meant
  for a pin that passed the guard: the pointers are dereferenced.
\<close>

definition attach_writes ::
  "board \<Rightarrow> u8 \<Rightarrow> 'f option \<Rightarrow> 'a option \<Rightarrow> u8 \<Rightarrow> (('f, 'a) machine \<Rightarrow> ('f, 'a) machine) list" where
  "attach_writes b pin func arg mode =
     (let pcicr = digitalPinToPCICR b pin;
          pcmsk = digitalPinToPCMSK b pin;
          portGroup = digitalPinToPCICRbit b pin;
          portBit = digitalPinToPCMSKbit b pin;
          portBitMask = to_u8 (BV (unat portBit));
          port = get_port b portGroup
      in [\<lambda>t. upd_port (the port) (\<lambda>p. p\<lparr>funcs := (funcs p)[unat portBit := func]\<rparr>) t,
          \<lambda>t. upd_port (the port) (\<lambda>p. p\<lparr>args := (args p)[unat portBit := arg]\<rparr>) t,
          \<lambda>t. upd_port (the port) (\<lambda>p. p\<lparr>rising :=
                 (if mode = RISING b \<or> mode = CHANGE b
                  then to_u8 (to_int (rising p) OR to_int portBitMask)
                  else to_u8 (to_int (rising p) AND NOT (to_int portBitMask)))\<rparr>) t,
          \<lambda>t. upd_port (the port) (\<lambda>p. p\<lparr>falling :=
                 (if mode = FALLING b \<or> mode = CHANGE b
                  then to_u8 (to_int (falling p) OR to_int portBitMask)
                  else to_u8 (to_int (falling p) AND NOT (to_int portBitMask)))\<rparr>) t,
          \<lambda>t. t\<lparr>regs := (regs t)(the pcmsk :=
                 to_u8 (to_int (regs t (the pcmsk)) OR to_int portBitMask))\<rparr>,
          \<lambda>t. t\<lparr>regs := (regs t)(the pcicr :=
                 to_u8 (to_int (regs t (the pcicr))
                        OR BV (unat (digitalPinToPCICRbit b pin))))\<rparr>,
          \<lambda>t. upd_port (the port) (\<lambda>p. p\<lparr>state :=
                 to_u8 ((to_int (state p) AND NOT (to_int portBitMask))
                        OR (to_int (get_port_value b t portGroup) AND to_int portBitMask))\<rparr>) t])"

text \<open>
  \<open>WITHOUT_INTERRUPTION(CODE)\<close> as the statements the foreground executes after
  \<open>uint8_t sreg = SREG\<close> has read \<open>sreg\<close>: \<open>noInterrupts()\<close>, the statements of \<open>CODE\<close>, and
  \<open>SREG = sreg\<close>.
\<close>

definition critical_section ::
  "u8 \<Rightarrow> (('f, 'a) machine \<Rightarrow> ('f, 'a) machine) list \<Rightarrow> (('f, 'a) machine \<Rightarrow> ('f, 'a) machine) list" where
  "critical_section sreg CODE = noInterrupts # CODE @ [\<lambda>t. t\<lparr>SREG := sreg\<rparr>]"

text \<open>
  The machines the foreground passes through while it executes a list of statements: the
  one it starts in and the one after each statement. A handler that preempts the
  foreground finds one of them.
\<close>

fun states_through ::
  "(('f, 'a) machine \<Rightarrow> ('f, 'a) machine) list \<Rightarrow> ('f, 'a) machine \<Rightarrow> ('f, 'a) machine list" where
  "states_through [] s = [s]"
| "states_through (w # ws) s = s # states_through ws (w s)"



section \<open>A board and a machine to evaluate on\<close>

text \<open>
  The ATmega328P of the Arduino Uno: pins 8 to 13 are bits 0 to 5 of group 0, pins 14 to 21
  bits 0 to 7 of group 1, pins 0 to 7 bits 0 to 7 of group 2; \<open>PCICR\<close> is at address 104
  and \<open>PCMSK0\<close>, \<open>PCMSK1\<close>, \<open>PCMSK2\<close> at 107, 108, 109; there is no fourth group. On the
  bench machine pin 8 is attached with mode \<open>CHANGE\<close> and pin 9 with mode \<open>RISING\<close>, the
  snapshot of group 0 is 0 and both pins read high. The callbacks of the bench count
  their calls in a byte at address 0.
\<close>

definition uno :: board where
  "uno =
     \<lparr>PCINT_INPUT_PORT_defined = (\<lambda>r. r \<noteq> port3),
      digitalPinToPCICR = (\<lambda>p. if p \<le> 21 then Some 104 else None),
      digitalPinToPCMSK =
        (\<lambda>p. if p \<le> 7 then Some 109 else if p \<le> 13 then Some 107
              else if p \<le> 21 then Some 108 else None),
      digitalPinToPCICRbit = (\<lambda>p. if p \<le> 7 then 2 else if p \<le> 13 then 0 else 1),
      digitalPinToPCMSKbit = (\<lambda>p. if p \<le> 7 then p else if p \<le> 13 then p - 8 else p - 14),
      RISING = 3, FALLING = 2, CHANGE = 1\<rparr>"

definition bench :: "(string, nat) machine" where
  "bench =
     \<lparr>ports = (\<lambda>r. if r = port0
          then \<lparr>funcs = [Some ''on_a'', Some ''on_b'', None, None, None, None, None, None],
                args = [Some 7, None, None, None, None, None, None, None],
                state = 0, rising = 3, falling = 1\<rparr>
          else port_instance),
      regs = (\<lambda>a. if a = 104 then 1 else if a = 107 then 3 else 0),
      pin_register = (\<lambda>r. if r = port0 then 3 else 0),
      SREG = 128\<rparr>"

definition count_calls :: "(string, nat) callbacks" where
  "count_calls f a l t = t\<lparr>regs := (regs t)(0 := regs t 0 + 1)\<rparr>"

text \<open>
  The machines the foreground passes through on the bench while it attaches a new callback
  to pin 8 with mode \<open>RISING\<close>.
\<close>

definition bench_attach :: "(string, nat) machine list" where
  "bench_attach =
     states_through
       (critical_section (SREG bench) (attach_writes uno 8 (Some ''on_c'') (Some 5) 3)) bench"


section \<open>Integer promotion does not show in the 8-bit results\<close>

lemma to_u8_or: "to_u8 (to_int a OR to_int b) = a OR b"
  by (rule bit_word_eqI) (auto simp: to_u8_def to_int_def bit_simps)

lemma to_u8_and_not: "to_u8 (to_int a AND NOT (to_int b)) = a AND NOT b"
  by (rule bit_word_eqI) (auto simp: to_u8_def to_int_def bit_simps)

lemma to_u8_and: "to_u8 (to_int a AND to_int b) = a AND b"
  by (rule bit_word_eqI) (auto simp: to_u8_def to_int_def bit_simps)

lemma bit_to_u8_BV: "bit (to_u8 (BV n)) k \<longleftrightarrow> k = n \<and> n < 8"
  by (auto simp: to_u8_def BV_def bit_simps)

lemma to_int_and_BV: "to_int x AND BV n \<noteq> 0 \<longleftrightarrow> bit x n"
  by (auto simp: to_int_def BV_def and_exp_eq_0_iff_not_bit bit_simps dest: bit_imp_le_length)

lemma BV_and_to_int: "BV n AND to_int x \<noteq> 0 \<longleftrightarrow> bit x n"
  by (simp add: and.commute [of "BV n"] to_int_and_BV)

lemma to_u8_BV: "to_u8 (BV n) = push_bit n 1"
  by (rule bit_word_eqI) (auto simp: to_u8_def BV_def bit_simps)

lemma to_u8_or_BV: "to_u8 (to_int r OR BV n) = r OR push_bit n 1"
  by (rule bit_word_eqI) (auto simp: to_u8_def to_int_def BV_def bit_simps)

lemma to_u8_and_not_BV: "to_u8 (to_int r AND NOT (BV n)) = r AND NOT (push_bit n 1)"
  by (rule bit_word_eqI) (auto simp: to_u8_def to_int_def BV_def bit_simps)

lemma to_u8_merge:
  "to_u8 ((to_int x AND NOT (to_int m)) OR (to_int y AND to_int m)) = (x AND NOT m) OR (y AND m)"
  by (rule bit_word_eqI) (auto simp: to_u8_def to_int_def bit_simps)

lemma bit_trigger_pins:
  "bit (trigger_pins p v) n \<longleftrightarrow>
     (bit (state p) n \<noteq> bit v n) \<and> (bit (rising p) n \<and> bit v n \<or> bit (falling p) n \<and> \<not> bit v n)"
  by (auto simp: trigger_pins_def to_u8_def to_int_def bit_simps dest: bit_imp_le_length)

lemma bit_push_bit_1_u8: "bit (push_bit n 1 :: u8) k \<longleftrightarrow> k = n \<and> n < 8"
  by (auto simp: bit_simps)

lemma bit_or_mask: "bit (x OR push_bit n 1 :: u8) k \<longleftrightarrow> bit x k \<or> k = n \<and> n < 8"
  by (simp add: bit_or_iff bit_push_bit_1_u8 del: push_bit_of_1)

lemma bit_and_not_mask: "bit (x AND NOT (push_bit n 1) :: u8) k \<longleftrightarrow> bit x k \<and> k \<noteq> n"
  by (auto simp: bit_and_iff bit_not_iff bit_push_bit_1_u8 simp del: push_bit_of_1
      dest: bit_imp_le_length)

lemma bit_merge_mask:
  "bit ((x AND NOT (push_bit n 1)) OR (y AND push_bit n 1) :: u8) k \<longleftrightarrow>
     (if k = n then bit y k else bit x k)"
  by (auto simp: bit_or_iff bit_and_iff bit_not_iff bit_push_bit_1_u8 simp del: push_bit_of_1
      dest: bit_imp_le_length)

lemmas promotion = to_u8_BV to_u8_or_BV to_u8_and_not_BV to_u8_merge to_u8_or to_u8_and_not

section \<open>Pin resolution and the critical section\<close>

lemma get_port_value_of_port:
  "get_port b g = Some port \<Longrightarrow> get_port_value b s g = pin_register s port"
  by (auto simp: get_port_def get_port_value_def split: if_splits)

lemma get_port_group_less: "get_port b g = Some port \<Longrightarrow> unat g < 4"
  by (auto simp: get_port_def split: if_splits)

lemma WITHOUT_INTERRUPTION_eq:
  "WITHOUT_INTERRUPTION CODE s = (CODE (s\<lparr>SREG := unset_bit 7 (SREG s)\<rparr>))\<lparr>SREG := SREG s\<rparr>"
  by (simp add: WITHOUT_INTERRUPTION_def noInterrupts_def Let_def)

lemma upd_port_simps [simp]:
  "ports (upd_port p f s) = (ports s)(p := f (ports s p))"
  "regs (upd_port p f s) = regs s"
  "SREG (upd_port p f s) = SREG s"
  "pin_register (upd_port p f s) = pin_register s"
  by (simp_all add: upd_port_def)

lemmas api_defs = attachInterrupt_def detachInterrupt_def enableInterrupt_def
  disableInterrupt_def Let_def WITHOUT_INTERRUPTION_eq

lemma attachInterrupt_mapped:
  assumes "digitalPinToPCICR b pin = Some pcicr" and "digitalPinToPCMSK b pin = Some pcmsk"
    and "get_port b (digitalPinToPCICRbit b pin) = Some port"
    and "unat (digitalPinToPCMSKbit b pin) < 8"
  shows "\<exists>s'. attachInterrupt b pin (Some f) arg mode s = Some s'
    \<and> funcs (ports s' port) = (funcs (ports s port))[unat (digitalPinToPCMSKbit b pin) := Some f]
    \<and> args (ports s' port) = (args (ports s port))[unat (digitalPinToPCMSKbit b pin) := arg]
    \<and> rising (ports s' port) =
           (if mode = RISING b \<or> mode = CHANGE b
            then rising (ports s port) OR push_bit (unat (digitalPinToPCMSKbit b pin)) 1
            else rising (ports s port) AND NOT (push_bit (unat (digitalPinToPCMSKbit b pin)) 1))
    \<and> falling (ports s' port) =
           (if mode = FALLING b \<or> mode = CHANGE b
            then falling (ports s port) OR push_bit (unat (digitalPinToPCMSKbit b pin)) 1
            else falling (ports s port) AND NOT (push_bit (unat (digitalPinToPCMSKbit b pin)) 1))
    \<and> state (ports s' port) =
           (state (ports s port) AND NOT (push_bit (unat (digitalPinToPCMSKbit b pin)) 1))
           OR (pin_register s port AND push_bit (unat (digitalPinToPCMSKbit b pin)) 1)
    \<and> regs s' =
           ((regs s)(pcmsk := regs s pcmsk OR push_bit (unat (digitalPinToPCMSKbit b pin)) 1))
           (pcicr := ((regs s)(pcmsk := regs s pcmsk OR push_bit (unat (digitalPinToPCMSKbit b pin)) 1)) pcicr
                     OR push_bit (unat (digitalPinToPCICRbit b pin)) 1)
    \<and> (\<forall>q. q \<noteq> port \<longrightarrow> ports s' q = ports s q)
    \<and> SREG s' = SREG s
    \<and> pin_register s' = pin_register s"
  using assms
  by (simp add: api_defs promotion get_port_value_of_port del: push_bit_of_1)

lemma detachInterrupt_mapped:
  assumes "digitalPinToPCICR b pin = Some pcicr" and "digitalPinToPCMSK b pin = Some pcmsk"
    and "get_port b (digitalPinToPCICRbit b pin) = Some port"
    and "unat (digitalPinToPCMSKbit b pin) < 8"
  shows "\<exists>s'. detachInterrupt b pin s = Some s'
    \<and> funcs (ports s' port) = (funcs (ports s port))[unat (digitalPinToPCMSKbit b pin) := None]
    \<and> args (ports s' port) = (args (ports s port))[unat (digitalPinToPCMSKbit b pin) := None]
    \<and> rising (ports s' port) =
           rising (ports s port) AND NOT (push_bit (unat (digitalPinToPCMSKbit b pin)) 1)
    \<and> falling (ports s' port) =
           falling (ports s port) AND NOT (push_bit (unat (digitalPinToPCMSKbit b pin)) 1)
    \<and> state (ports s' port) = state (ports s port)
    \<and> regs s' =
           (if regs s pcmsk AND NOT (push_bit (unat (digitalPinToPCMSKbit b pin)) 1) = 0
            then ((regs s)(pcmsk := 0))
                   (pcicr := ((regs s)(pcmsk := 0)) pcicr
                             AND NOT (push_bit (unat (digitalPinToPCICRbit b pin)) 1))
            else (regs s)(pcmsk := regs s pcmsk
                                   AND NOT (push_bit (unat (digitalPinToPCMSKbit b pin)) 1)))
    \<and> (\<forall>q. q \<noteq> port \<longrightarrow> ports s' q = ports s q)
    \<and> SREG s' = SREG s
    \<and> pin_register s' = pin_register s"
  using assms
  by (simp add: api_defs promotion del: push_bit_of_1)

lemma enableInterrupt_mapped:
  assumes "digitalPinToPCICR b pin = Some pcicr" and "digitalPinToPCMSK b pin = Some pcmsk"
    and "get_port b (digitalPinToPCICRbit b pin) = Some port"
    and "unat (digitalPinToPCMSKbit b pin) < 8"
    and "funcs (ports s port) ! unat (digitalPinToPCMSKbit b pin) \<noteq> None"
  shows "\<exists>s'. enableInterrupt b pin s = Some s'
    \<and> funcs (ports s' port) = funcs (ports s port)
    \<and> args (ports s' port) = args (ports s port)
    \<and> rising (ports s' port) = rising (ports s port)
    \<and> falling (ports s' port) = falling (ports s port)
    \<and> state (ports s' port) =
           (state (ports s port) AND NOT (push_bit (unat (digitalPinToPCMSKbit b pin)) 1))
           OR (pin_register s port AND push_bit (unat (digitalPinToPCMSKbit b pin)) 1)
    \<and> regs s' =
           ((regs s)(pcmsk := regs s pcmsk OR push_bit (unat (digitalPinToPCMSKbit b pin)) 1))
           (pcicr := ((regs s)(pcmsk := regs s pcmsk OR push_bit (unat (digitalPinToPCMSKbit b pin)) 1)) pcicr
                     OR push_bit (unat (digitalPinToPCICRbit b pin)) 1)
    \<and> (\<forall>q. q \<noteq> port \<longrightarrow> ports s' q = ports s q)
    \<and> SREG s' = SREG s
    \<and> pin_register s' = pin_register s"
  using assms
  by (simp add: api_defs promotion get_port_value_of_port del: push_bit_of_1)

lemma disableInterrupt_mapped:
  assumes "digitalPinToPCICR b pin = Some pcicr" and "digitalPinToPCMSK b pin = Some pcmsk"
    and "get_port b (digitalPinToPCICRbit b pin) = Some port"
  shows "\<exists>s'. disableInterrupt b pin s = Some s'
    \<and> ports s' = ports s
    \<and> regs s' =
           (if regs s pcmsk AND NOT (push_bit (unat (digitalPinToPCMSKbit b pin)) 1) = 0
            then ((regs s)(pcmsk := 0))
                   (pcicr := ((regs s)(pcmsk := 0)) pcicr
                             AND NOT (push_bit (unat (digitalPinToPCICRbit b pin)) 1))
            else (regs s)(pcmsk := regs s pcmsk
                                   AND NOT (push_bit (unat (digitalPinToPCMSKbit b pin)) 1)))
    \<and> SREG s' = SREG s
    \<and> pin_register s' = pin_register s"
  using assms
  by (simp add: api_defs promotion del: push_bit_of_1)


section \<open>The statements of the critical section\<close>








section \<open>The arrays keep their eight entries\<close>

text \<open>
  The theorems below take the two arrays of a port group to have eight entries. The
  initial instance has them, and no registration function changes a length.
\<close>

lemma PcIntPort_ctor_keeps_args: "args (PcIntPort_ctor storage) = args storage"
  by (simp add: PcIntPort_ctor_def)

lemma port_instance_lengths:
  "length (funcs (port_instance :: ('f, 'a) PcIntPort)) = 8"
  "length (args (port_instance :: ('f, 'a) PcIntPort)) = 8"
  by (simp_all add: port_instance_def PcIntPort_ctor_def static_storage_def)

lemma attachInterrupt_lengths:
  assumes "attachInterrupt b pin func arg mode s = Some s'"
  shows "length (funcs (ports s' q)) = length (funcs (ports s q))"
    and "length (args (ports s' q)) = length (args (ports s q))"
  using assms by (auto simp: api_defs split: if_splits)

lemma detachInterrupt_lengths:
  assumes "detachInterrupt b pin s = Some s'"
  shows "length (funcs (ports s' q)) = length (funcs (ports s q))"
    and "length (args (ports s' q)) = length (args (ports s q))"
  using assms by (auto simp: api_defs split: if_splits)

lemma enableInterrupt_lengths:
  assumes "enableInterrupt b pin s = Some s'"
  shows "length (funcs (ports s' q)) = length (funcs (ports s q))"
    and "length (args (ports s' q)) = length (args (ports s q))"
  using assms by (auto simp: api_defs split: if_splits)

lemma disableInterrupt_lengths:
  assumes "disableInterrupt b pin s = Some s'"
  shows "length (funcs (ports s' q)) = length (funcs (ports s q))"
    and "length (args (ports s' q)) = length (args (ports s q))"
  using assms by (auto simp: api_defs split: if_splits)

section \<open>The dispatcher's loop\<close>

lemma spec_invocations_step:
  "k < 8 \<Longrightarrow> spec_invocations p trig v k =
     (if bit trig k \<and> funcs p ! k \<noteq> None
      then \<lparr>slot = k, callee = the (funcs p ! k), argument = args p ! k, level = bit v k\<rparr>
           # spec_invocations p trig v (Suc k)
      else spec_invocations p trig v (Suc k))"
  by (simp add: spec_invocations_def upt_conv_Cons)

lemma spec_invocations_done: "\<not> k < 8 \<Longrightarrow> spec_invocations p trig v k = []"
  by (simp add: spec_invocations_def)

lemma isr_loop_done: "\<not> nr < 8 \<Longrightarrow> isr_loop call port trig v nr acc = acc"
  by (cases acc) (simp add: isr_loop.simps)

lemma isr_loop_hit:
  "nr < 8 \<Longrightarrow> bit trig nr \<Longrightarrow> funcs (ports s port) ! nr = Some f \<Longrightarrow>
   isr_loop call port trig v nr (s, tr) =
   isr_loop call port trig v (Suc nr)
     (call f (args (ports s port) ! nr) (bit v nr) s,
      tr @ [\<lparr>slot = nr, callee = f, argument = args (ports s port) ! nr, level = bit v nr\<rparr>])"
  by (subst isr_loop.simps) (simp add: to_int_and_BV BV_and_to_int)

lemma isr_loop_miss:
  "nr < 8 \<Longrightarrow> \<not> bit trig nr \<or> funcs (ports s port) ! nr = None \<Longrightarrow>
   isr_loop call port trig v nr (s, tr) = isr_loop call port trig v (Suc nr) (s, tr)"
  by (subst isr_loop.simps) (auto simp: to_int_and_BV BV_and_to_int)

lemma isr_loop_trace_slots:
  "i \<in> set (snd (isr_loop call port trig v nr (s, tr))) \<Longrightarrow>
   i \<in> set tr \<or> (bit trig (slot i) \<and> nr \<le> slot i \<and> slot i < 8 \<and> level i = bit v (slot i))"
proof (induction k \<equiv> "8 - nr" arbitrary: nr s tr)
  case 0
  then show ?case by (simp add: isr_loop_done)
next
  case (Suc k)
  then have nr: "nr < 8" and k: "k = 8 - Suc nr" by simp_all
  show ?case
  proof (cases "bit trig nr \<and> funcs (ports s port) ! nr \<noteq> None")
    case True
    then obtain f where f: "funcs (ports s port) ! nr = Some f" by auto
    from Suc.prems have "i \<in> set (snd (isr_loop call port trig v (Suc nr)
       (call f (args (ports s port) ! nr) (bit v nr) s,
        tr @ [\<lparr>slot = nr, callee = f, argument = args (ports s port) ! nr, level = bit v nr\<rparr>])))"
      using isr_loop_hit [OF nr _ f] True by simp
    from Suc.hyps(1) [OF k this] True nr show ?thesis by auto
  next
    case False
    then have "isr_loop call port trig v nr (s, tr) = isr_loop call port trig v (Suc nr) (s, tr)"
      using isr_loop_miss [OF nr] by blast
    with Suc.prems Suc.hyps(1) [OF k] show ?thesis by fastforce
  qed
qed

lemma run_callbacks_frame:
  assumes "\<And>f a l t. F (call f a l t) = F t"
  shows "F (run_callbacks call tr s) = F s"
  unfolding run_callbacks_def
  by (induction tr arbitrary: s) (simp_all add: assms)

lemma isr_loop_delivers:
  assumes frame: "\<And>f a l t. funcs (ports (call f a l t) port) = funcs (ports t port)
                            \<and> args (ports (call f a l t) port) = args (ports t port)"
  shows "isr_loop call port trig v nr (s, tr) =
     (run_callbacks call (spec_invocations (ports s port) trig v nr) s,
      tr @ spec_invocations (ports s port) trig v nr)"
proof (induction k \<equiv> "8 - nr" arbitrary: nr s tr)
  case 0
  then show ?case by (simp add: isr_loop_done spec_invocations_done run_callbacks_def)
next
  case (Suc k)
  then have nr: "nr < 8" and k: "k = 8 - Suc nr" by simp_all
  show ?case
  proof (cases "bit trig nr \<and> funcs (ports s port) ! nr \<noteq> None")
    case True
    then obtain f where f: "funcs (ports s port) ! nr = Some f" by auto
    let ?s = "call f (args (ports s port) ! nr) (bit v nr) s"
    have same: "spec_invocations (ports ?s port) trig v (Suc nr) = spec_invocations (ports s port) trig v (Suc nr)"
      by (simp add: spec_invocations_def frame)
    show ?thesis
      using True f
      by (simp add: isr_loop_hit [OF nr _ f] Suc.hyps(1) [OF k] same spec_invocations_step [OF nr]
          run_callbacks_def)
  next
    case False
    then show ?thesis
      using isr_loop_miss [OF nr, of trig s port call v tr] Suc.hyps(1) [OF k]
      by (auto simp: spec_invocations_step [OF nr])
  qed
qed

lemma isr_loop_fold:
  "isr_loop call port trig v nr (s, tr) = fold (spec_step call port trig v) [nr..<8] (s, tr)"
proof (induction k \<equiv> "8 - nr" arbitrary: nr s tr)
  case 0
  then show ?case by (simp add: isr_loop_done)
next
  case (Suc k)
  then have nr: "nr < 8" and k: "k = 8 - Suc nr" by simp_all
  show ?case
  proof (cases "bit trig nr \<and> funcs (ports s port) ! nr \<noteq> None")
    case True
    then obtain f where f: "funcs (ports s port) ! nr = Some f" by auto
    show ?thesis
      using True f nr
      by (simp add: isr_loop_hit [OF nr _ f] Suc.hyps(1) [OF k] upt_conv_Cons spec_step_def)
  next
    case False
    then show ?thesis
      using isr_loop_miss [OF nr, of trig s port call v tr] Suc.hyps(1) [OF k] nr
      by (auto simp: upt_conv_Cons spec_step_def)
  qed
qed

lemma isr_loop_frame:
  assumes "\<And>f a l t. F (call f a l t) = F t"
  shows "F (fst (isr_loop call port trig v nr (s, tr))) = F s"
proof (induction k \<equiv> "8 - nr" arbitrary: nr s tr)
  case 0
  then show ?case by (simp add: isr_loop_done)
next
  case (Suc k)
  then have nr: "nr < 8" and k: "k = 8 - Suc nr" by simp_all
  show ?case
  proof (cases "bit trig nr \<and> funcs (ports s port) ! nr \<noteq> None")
    case True
    then obtain f where f: "funcs (ports s port) ! nr = Some f" by auto
    show ?thesis
      using True by (simp add: isr_loop_hit [OF nr _ f] Suc.hyps(1) [OF k] assms)
  next
    case False
    then show ?thesis
      using isr_loop_miss [OF nr, of trig s port call v tr] Suc.hyps(1) [OF k] by auto
  qed
qed

lemma ISR_keeps_modes:
  assumes "\<And>f a l t. rising (ports (call f a l t) port) = rising (ports t port)"
    and "\<And>f a l t. falling (ports (call f a l t) port) = falling (ports t port)"
  shows "rising (ports (fst (ISR call port s)) port) = rising (ports s port)"
    and "falling (ports (fst (ISR call port s)) port) = falling (ports s port)"
  using isr_loop_frame [of "\<lambda>t. rising (ports t port)" call, OF assms(1)]
    isr_loop_frame [of "\<lambda>t. falling (ports t port)" call, OF assms(2)]
  by (simp_all add: ISR_def Let_def)

lemma ISR_trace_triggered:
  assumes "i \<in> set (snd (ISR call port s))"
  shows "bit (trigger_pins (ports s port) (pin_register s port)) (slot i)"
  using isr_loop_trace_slots [of i call port _ _ 0 _ "[]"] assms
  by (simp add: ISR_def Let_def)

section \<open>The board and the bench, evaluated\<close>

lemma uno_pin8:
  "digitalPinToPCICR uno 8 = Some 104" "digitalPinToPCMSK uno 8 = Some 107"
  "get_port uno (digitalPinToPCICRbit uno 8) = Some port0"
  "unat (digitalPinToPCMSKbit uno 8) < 8"
  by (simp_all add: uno_def get_port_def)

lemma uno_pin8_bits:
  "unat (digitalPinToPCMSKbit uno 8) = 0" "unat (digitalPinToPCICRbit uno 8) = 0"
  by (simp_all add: uno_def)

lemma uno_pin9:
  "digitalPinToPCICR uno 9 = Some 104" "digitalPinToPCMSK uno 9 = Some 107"
  "get_port uno (digitalPinToPCICRbit uno 9) = Some port0"
  "unat (digitalPinToPCMSKbit uno 9) < 8"
  by (simp_all add: uno_def get_port_def)

lemma uno_pin9_bits:
  "unat (digitalPinToPCMSKbit uno 9) = 1" "unat (digitalPinToPCICRbit uno 9) = 0"
  by (simp_all add: uno_def)

lemma bench_port0:
  "length (funcs (ports bench port0)) = 8" "length (args (ports bench port0)) = 8"
  "funcs (ports bench port0) ! 0 = Some ''on_a''"
  "funcs (ports bench port0) ! 1 = Some ''on_b''"
  "state (ports bench port0) = 0" "pin_register bench port0 = 3"
  "rising (ports bench port0) = 3" "falling (ports bench port0) = 1"
  "regs bench 104 = 1" "regs bench 107 = 3" "regs bench 0 = 0"
  by (simp_all add: bench_def)


text \<open>
  Why the critical section is there: were the handler to run on the bench after the first
  assignment alone, it would call the new callback with the old argument.
\<close>

lemma handler_between_writes_reads_torn_slot:
  "snd (ISR count_calls port0 (bench_attach ! 2)) =
     [\<lparr>slot = 0, callee = ''on_c'', argument = Some 7, level = True\<rparr>,
      \<lparr>slot = 1, callee = ''on_b'', argument = None, level = True\<rparr>]"
  by code_simp

section \<open>Which pins trigger\<close>

text \<open>
  Claim C1. For every port group and every value read from the port, the dispatcher's
  trigger word is (snapshot XOR new value) AND ((rising AND new value) OR (falling AND NOT
  new value)), computed on 8 bits.
\<close>

theorem trigger_pins_formula:
  "trigger_pins port new_value =
     (state port XOR new_value)
     AND ((rising port AND new_value) OR (falling port AND NOT new_value))"
  by (rule bit_word_eqI) (auto simp: trigger_pins_def to_u8_def to_int_def bit_simps)

section \<open>One dispatcher run\<close>

text \<open>
  Claim C2. For every port group and every new value, one run of the handler first sets
  the whole snapshot to the new value and then, for the bit positions 0 to 7 in ascending
  order whose trigger bit is set and whose slot holds a callback, calls that callback
  exactly once with the slot's argument and the level of the bit in the new value; no
  other position is called. First for any callbacks, each slot read when its position is
  reached; then, for callbacks that leave the group's table of callbacks and arguments
  as it is, with the list of calls read off the table the run started with.
\<close>

theorem ISR_dispatch:
  "ISR call port s =
     fold (spec_step call port (trigger_pins (ports s port) (pin_register s port))
             (pin_register s port))
       [0, 1, 2, 3, 4, 5, 6, 7]
       (s\<lparr>ports := (ports s)(port := (ports s port)\<lparr>state := pin_register s port\<rparr>)\<rparr>, [])
   \<and> ((\<forall>f a l t. funcs (ports (call f a l t) port) = funcs (ports t port)
                 \<and> args (ports (call f a l t) port) = args (ports t port)) \<longrightarrow>
      ISR call port s =
        (run_callbacks call
           (spec_invocations (ports s port) (trigger_pins (ports s port) (pin_register s port))
              (pin_register s port) 0)
           (s\<lparr>ports := (ports s)(port := (ports s port)\<lparr>state := pin_register s port\<rparr>)\<rparr>),
         spec_invocations (ports s port) (trigger_pins (ports s port) (pin_register s port))
           (pin_register s port) 0))"
proof (intro conjI impI)
  have "[0 ..< 8] = [0, 1, 2, 3, 4, 5, 6, 7 :: nat]"
    by (simp add: upt_rec)
  then show "ISR call port s =
     fold (spec_step call port (trigger_pins (ports s port) (pin_register s port))
             (pin_register s port))
       [0, 1, 2, 3, 4, 5, 6, 7]
       (s\<lparr>ports := (ports s)(port := (ports s port)\<lparr>state := pin_register s port\<rparr>)\<rparr>, [])"
    by (simp add: ISR_def Let_def upd_port_def isr_loop_fold del: fold_simps)
next
  assume "\<forall>f a l t. funcs (ports (call f a l t) port) = funcs (ports t port)
                 \<and> args (ports (call f a l t) port) = args (ports t port)"
  then have frame: "\<And>f a l t. funcs (ports (call f a l t) port) = funcs (ports t port)
                 \<and> args (ports (call f a l t) port) = args (ports t port)"
    by blast
  show "ISR call port s =
        (run_callbacks call
           (spec_invocations (ports s port) (trigger_pins (ports s port) (pin_register s port))
              (pin_register s port) 0)
           (s\<lparr>ports := (ports s)(port := (ports s port)\<lparr>state := pin_register s port\<rparr>)\<rparr>),
         spec_invocations (ports s port) (trigger_pins (ports s port) (pin_register s port))
           (pin_register s port) 0)"
    by (simp add: ISR_def Let_def upd_port_def isr_loop_delivers [OF frame] spec_invocations_def)
qed

theorem ISR_dispatch_witness:
  "snd (ISR count_calls port0 bench) =
     [\<lparr>slot = 0, callee = ''on_a'', argument = Some 7, level = True\<rparr>,
      \<lparr>slot = 1, callee = ''on_b'', argument = None, level = True\<rparr>]
   \<and> state (ports (fst (ISR count_calls port0 bench)) port0) = 3
   \<and> regs (fst (ISR count_calls port0 bench)) 0 = 2"
proof -
  have frame: "\<forall>f a l t. funcs (ports (count_calls f a l t) port0) = funcs (ports t port0)
                      \<and> args (ports (count_calls f a l t) port0) = args (ports t port0)"
    by (simp add: count_calls_def)
  have inv: "spec_invocations (ports bench port0)
        (trigger_pins (ports bench port0) (pin_register bench port0)) (pin_register bench port0) 0 =
     [\<lparr>slot = 0, callee = ''on_a'', argument = Some 7, level = True\<rparr>,
      \<lparr>slot = 1, callee = ''on_b'', argument = None, level = True\<rparr>]"
    by code_simp
  have b: "state (ports bench port0) = 0" "pin_register bench port0 = 3" "regs bench 0 = 0"
    by (simp_all add: bench_def)
  have run: "ISR count_calls port0 bench =
     (run_callbacks count_calls
        [\<lparr>slot = 0, callee = ''on_a'', argument = Some 7, level = True\<rparr>,
         \<lparr>slot = 1, callee = ''on_b'', argument = None, level = True\<rparr>]
        (bench\<lparr>ports := (ports bench)(port0 := (ports bench port0)\<lparr>state := pin_register bench port0\<rparr>)\<rparr>),
      [\<lparr>slot = 0, callee = ''on_a'', argument = Some 7, level = True\<rparr>,
       \<lparr>slot = 1, callee = ''on_b'', argument = None, level = True\<rparr>])"
    using ISR_dispatch [of count_calls port0 bench] frame unfolding inv by blast
  show ?thesis
    by (simp add: run run_callbacks_def count_calls_def b)
qed

section \<open>Attaching\<close>

text \<open>
  Claim C3. For a pin that resolves to a group and a bit, a callback that is not null and
  a mode among \<open>RISING\<close>, \<open>FALLING\<close> and \<open>CHANGE\<close>, \<open>attachInterrupt\<close> stores the callback
  and the argument in the bit's slot, leaves the rising bit set exactly for \<open>RISING\<close> and
  \<open>CHANGE\<close> and the falling bit set exactly for \<open>FALLING\<close> and \<open>CHANGE\<close>, sets the bit in
  the group's mask register and the group's bit in \<open>PCICR\<close>.
\<close>

theorem attachInterrupt_stores:
  assumes "digitalPinToPCICR b pin = Some pcicr" and "digitalPinToPCMSK b pin = Some pcmsk"
    and "get_port b (digitalPinToPCICRbit b pin) = Some port"
    and "unat (digitalPinToPCMSKbit b pin) < 8"
    and "length (funcs (ports s port)) = 8" and "length (args (ports s port)) = 8"
    and "mode \<in> {RISING b, FALLING b, CHANGE b}"
  shows "\<exists>s'. attachInterrupt b pin (Some f) arg mode s = Some s'
    \<and> funcs (ports s' port) ! unat (digitalPinToPCMSKbit b pin) = Some f
    \<and> args (ports s' port) ! unat (digitalPinToPCMSKbit b pin) = arg
    \<and> (bit (rising (ports s' port)) (unat (digitalPinToPCMSKbit b pin))
         \<longleftrightarrow> mode = RISING b \<or> mode = CHANGE b)
    \<and> (bit (falling (ports s' port)) (unat (digitalPinToPCMSKbit b pin))
         \<longleftrightarrow> mode = FALLING b \<or> mode = CHANGE b)
    \<and> bit (regs s' pcmsk) (unat (digitalPinToPCMSKbit b pin))
    \<and> bit (regs s' pcicr) (unat (digitalPinToPCICRbit b pin))"
proof -
  have g: "unat (digitalPinToPCICRbit b pin) < 8"
    using get_port_group_less [OF assms(3)] by simp
  from attachInterrupt_mapped [OF assms(1-4), of f arg mode s]
  obtain s' where s': "attachInterrupt b pin (Some f) arg mode s = Some s'"
    and f: "funcs (ports s' port) = (funcs (ports s port))[unat (digitalPinToPCMSKbit b pin) := Some f]"
    and a: "args (ports s' port) = (args (ports s port))[unat (digitalPinToPCMSKbit b pin) := arg]"
    and r: "rising (ports s' port) =
           (if mode = RISING b \<or> mode = CHANGE b
            then rising (ports s port) OR push_bit (unat (digitalPinToPCMSKbit b pin)) 1
            else rising (ports s port) AND NOT (push_bit (unat (digitalPinToPCMSKbit b pin)) 1))"
    and fl: "falling (ports s' port) =
           (if mode = FALLING b \<or> mode = CHANGE b
            then falling (ports s port) OR push_bit (unat (digitalPinToPCMSKbit b pin)) 1
            else falling (ports s port) AND NOT (push_bit (unat (digitalPinToPCMSKbit b pin)) 1))"
    and rg: "regs s' =
           ((regs s)(pcmsk := regs s pcmsk OR push_bit (unat (digitalPinToPCMSKbit b pin)) 1))
           (pcicr := ((regs s)(pcmsk := regs s pcmsk OR push_bit (unat (digitalPinToPCMSKbit b pin)) 1)) pcicr
                     OR push_bit (unat (digitalPinToPCICRbit b pin)) 1)"
    by blast
  have 1: "funcs (ports s' port) ! unat (digitalPinToPCMSKbit b pin) = Some f"
    using assms(4,5) by (simp add: f)
  have 2: "args (ports s' port) ! unat (digitalPinToPCMSKbit b pin) = arg"
    using assms(4,6) by (simp add: a)
  have 3: "bit (rising (ports s' port)) (unat (digitalPinToPCMSKbit b pin))
         \<longleftrightarrow> mode = RISING b \<or> mode = CHANGE b"
    using assms(4) by (simp add: r bit_or_mask bit_and_not_mask del: push_bit_of_1)
  have 4: "bit (falling (ports s' port)) (unat (digitalPinToPCMSKbit b pin))
         \<longleftrightarrow> mode = FALLING b \<or> mode = CHANGE b"
    using assms(4) by (simp add: fl bit_or_mask bit_and_not_mask del: push_bit_of_1)
  have 5: "bit (regs s' pcmsk) (unat (digitalPinToPCMSKbit b pin))"
    using assms(4) by (simp add: rg bit_or_mask del: push_bit_of_1)
  have 6: "bit (regs s' pcicr) (unat (digitalPinToPCICRbit b pin))"
    using g by (simp add: rg bit_or_mask del: push_bit_of_1)
  from s' 1 2 3 4 5 6 show ?thesis by blast
qed

theorem attachInterrupt_stores_witness:
  "\<exists>s'. attachInterrupt uno 8 (Some ''on_c'') (Some 5) 3 bench = Some s'
    \<and> funcs (ports s' port0) ! 0 = Some ''on_c''
    \<and> args (ports s' port0) ! 0 = Some 5
    \<and> bit (rising (ports s' port0)) 0
    \<and> \<not> bit (falling (ports s' port0)) 0
    \<and> bit (regs s' 107) 0
    \<and> bit (regs s' 104) 0"
proof -
  have m: "(3 :: u8) \<in> {RISING uno, FALLING uno, CHANGE uno}"
    by (simp add: uno_def)
  have v: "RISING uno = 3" "FALLING uno = 2" "CHANGE uno = 1"
    by (simp_all add: uno_def)
  from attachInterrupt_stores [OF uno_pin8 bench_port0(1,2) m, of "''on_c''" "Some 5"]
  show ?thesis by (simp add: uno_pin8_bits v)
qed

section \<open>A handler that preempts an attach\<close>



section \<open>The snapshot on attach and enable\<close>

text \<open>
  Claim C5. For a pin that resolves to bit \<open>b\<close> of a group, \<open>attachInterrupt\<close> with a
  callback and \<open>enableInterrupt\<close> on an occupied slot set bit \<open>b\<close> of the group's snapshot
  to bit \<open>b\<close> of the value the port reads, and leave every other bit of the snapshot as
  it was.
\<close>

theorem snapshot_refresh_one_bit:
  assumes "digitalPinToPCICR b pin = Some pcicr" and "digitalPinToPCMSK b pin = Some pcmsk"
    and "get_port b (digitalPinToPCICRbit b pin) = Some port"
    and "unat (digitalPinToPCMSKbit b pin) < 8"
  shows "(\<exists>s'. attachInterrupt b pin (Some f) arg mode s = Some s'
           \<and> (\<forall>n. bit (state (ports s' port)) n =
                 (if n = unat (digitalPinToPCMSKbit b pin) then bit (pin_register s port) n
                  else bit (state (ports s port)) n)))
       \<and> (funcs (ports s port) ! unat (digitalPinToPCMSKbit b pin) \<noteq> None \<longrightarrow>
          (\<exists>s'. enableInterrupt b pin s = Some s'
           \<and> (\<forall>n. bit (state (ports s' port)) n =
                 (if n = unat (digitalPinToPCMSKbit b pin) then bit (pin_register s port) n
                  else bit (state (ports s port)) n))))"
proof (intro conjI impI)
  from attachInterrupt_mapped [OF assms, of f arg mode s]
  obtain s' where "attachInterrupt b pin (Some f) arg mode s = Some s'"
    and "state (ports s' port) =
           (state (ports s port) AND NOT (push_bit (unat (digitalPinToPCMSKbit b pin)) 1))
           OR (pin_register s port AND push_bit (unat (digitalPinToPCMSKbit b pin)) 1)"
    by blast
  then show "\<exists>s'. attachInterrupt b pin (Some f) arg mode s = Some s'
           \<and> (\<forall>n. bit (state (ports s' port)) n =
                 (if n = unat (digitalPinToPCMSKbit b pin) then bit (pin_register s port) n
                  else bit (state (ports s port)) n))"
    by (simp add: bit_merge_mask del: push_bit_of_1)
next
  assume "funcs (ports s port) ! unat (digitalPinToPCMSKbit b pin) \<noteq> None"
  from enableInterrupt_mapped [OF assms this]
  obtain s' where "enableInterrupt b pin s = Some s'"
    and "state (ports s' port) =
           (state (ports s port) AND NOT (push_bit (unat (digitalPinToPCMSKbit b pin)) 1))
           OR (pin_register s port AND push_bit (unat (digitalPinToPCMSKbit b pin)) 1)"
    by blast
  then show "\<exists>s'. enableInterrupt b pin s = Some s'
           \<and> (\<forall>n. bit (state (ports s' port)) n =
                 (if n = unat (digitalPinToPCMSKbit b pin) then bit (pin_register s port) n
                  else bit (state (ports s port)) n))"
    by (simp add: bit_merge_mask del: push_bit_of_1)
qed

theorem snapshot_refresh_one_bit_witness:
  "(\<exists>s'. attachInterrupt uno 9 (Some ''on_c'') None 1 bench = Some s'
      \<and> (\<forall>n. bit (state (ports s' port0)) n = (n = 1)))
   \<and> (\<exists>s'. enableInterrupt uno 9 bench = Some s'
      \<and> (\<forall>n. bit (state (ports s' port0)) n = (n = 1)))"
proof -
  have occ: "funcs (ports bench port0) ! unat (digitalPinToPCMSKbit uno 9) \<noteq> None"
    by (simp add: uno_pin9_bits bench_def)
  from snapshot_refresh_one_bit [OF uno_pin9, of "''on_c''" None 1 bench] occ
  show ?thesis
    unfolding uno_pin9_bits bench_port0 by (auto cong: if_cong)
qed

section \<open>Calls that are discarded\<close>

text \<open>
  Claim C6. On a pin that does not resolve to a supported group each of the four
  functions, \<open>attachInterrupt\<close> with a null callback on any pin, and \<open>enableInterrupt\<close> on a
  slot without a callback return normally and leave the whole machine (port groups, mask
  and enable registers, status register) as it was.
\<close>

theorem discarded_calls_change_nothing:
  "(digitalPinToPCICR b pin = None \<or> digitalPinToPCMSK b pin = None
      \<or> get_port b (digitalPinToPCICRbit b pin) = None \<longrightarrow>
      attachInterrupt b pin func arg mode s = Some s \<and> detachInterrupt b pin s = Some s
      \<and> enableInterrupt b pin s = Some s \<and> disableInterrupt b pin s = Some s)
   \<and> attachInterrupt b pin None arg mode s = Some s
   \<and> (get_port b (digitalPinToPCICRbit b pin) = Some port
        \<and> unat (digitalPinToPCMSKbit b pin) < 8
        \<and> funcs (ports s port) ! unat (digitalPinToPCMSKbit b pin) = None \<longrightarrow>
      enableInterrupt b pin s = Some s)"
  by (auto simp: attachInterrupt_def detachInterrupt_def enableInterrupt_def
      disableInterrupt_def Let_def)

theorem discarded_calls_change_nothing_witness:
  "attachInterrupt uno 200 (Some ''on_c'') None 1 bench = Some bench
   \<and> detachInterrupt uno 200 bench = Some bench
   \<and> enableInterrupt uno 200 bench = Some bench
   \<and> disableInterrupt uno 200 bench = Some bench
   \<and> attachInterrupt uno 8 None (Some 5) 1 bench = Some bench
   \<and> enableInterrupt uno 10 bench = Some bench"
proof -
  have u: "digitalPinToPCICR uno 200 = None" by (simp add: uno_def)
  have e: "get_port uno (digitalPinToPCICRbit uno 10) = Some port0
        \<and> unat (digitalPinToPCMSKbit uno 10) < 8
        \<and> funcs (ports bench port0) ! unat (digitalPinToPCMSKbit uno 10) = None"
    by (simp add: uno_def get_port_def bench_def)
  from discarded_calls_change_nothing [of uno 200 "Some ''on_c''" None 1 bench] u
    discarded_calls_change_nothing [of uno 8 None "Some 5" 1 bench]
    discarded_calls_change_nothing [of uno 10 None None 1 bench port0] e
  show ?thesis by simp
qed

section \<open>Detaching\<close>

text \<open>
  Claim C7. For a pin that resolves to a group and a bit, \<open>detachInterrupt\<close> clears the
  slot's callback and argument, the bit's rising and falling bits and its bit in the
  group's mask register; the group's bit in \<open>PCICR\<close> is cleared if the mask register is
  zero afterwards, and \<open>PCICR\<close> is left as it was if not. The two registers are distinct.
\<close>

theorem detachInterrupt_clears:
  assumes "digitalPinToPCICR b pin = Some pcicr" and "digitalPinToPCMSK b pin = Some pcmsk"
    and "get_port b (digitalPinToPCICRbit b pin) = Some port"
    and "unat (digitalPinToPCMSKbit b pin) < 8"
    and "length (funcs (ports s port)) = 8" and "length (args (ports s port)) = 8"
    and "pcicr \<noteq> pcmsk"
  shows "\<exists>s'. detachInterrupt b pin s = Some s'
    \<and> funcs (ports s' port) ! unat (digitalPinToPCMSKbit b pin) = None
    \<and> args (ports s' port) ! unat (digitalPinToPCMSKbit b pin) = None
    \<and> \<not> bit (rising (ports s' port)) (unat (digitalPinToPCMSKbit b pin))
    \<and> \<not> bit (falling (ports s' port)) (unat (digitalPinToPCMSKbit b pin))
    \<and> regs s' pcmsk = regs s pcmsk AND NOT (push_bit (unat (digitalPinToPCMSKbit b pin)) 1)
    \<and> \<not> bit (regs s' pcmsk) (unat (digitalPinToPCMSKbit b pin))
    \<and> regs s' pcicr =
        (if regs s' pcmsk = 0
         then regs s pcicr AND NOT (push_bit (unat (digitalPinToPCICRbit b pin)) 1)
         else regs s pcicr)"
proof -
  from detachInterrupt_mapped [OF assms(1-4), of s]
  obtain s' where s': "detachInterrupt b pin s = Some s'"
    and f: "funcs (ports s' port) = (funcs (ports s port))[unat (digitalPinToPCMSKbit b pin) := None]"
    and a: "args (ports s' port) = (args (ports s port))[unat (digitalPinToPCMSKbit b pin) := None]"
    and r: "rising (ports s' port) =
           rising (ports s port) AND NOT (push_bit (unat (digitalPinToPCMSKbit b pin)) 1)"
    and fl: "falling (ports s' port) =
           falling (ports s port) AND NOT (push_bit (unat (digitalPinToPCMSKbit b pin)) 1)"
    and rg: "regs s' =
           (if regs s pcmsk AND NOT (push_bit (unat (digitalPinToPCMSKbit b pin)) 1) = 0
            then ((regs s)(pcmsk := 0))
                   (pcicr := ((regs s)(pcmsk := 0)) pcicr
                             AND NOT (push_bit (unat (digitalPinToPCICRbit b pin)) 1))
            else (regs s)(pcmsk := regs s pcmsk
                                   AND NOT (push_bit (unat (digitalPinToPCMSKbit b pin)) 1)))"
    by blast
  have 1: "funcs (ports s' port) ! unat (digitalPinToPCMSKbit b pin) = None"
    using assms(4,5) by (simp add: f)
  have 2: "args (ports s' port) ! unat (digitalPinToPCMSKbit b pin) = None"
    using assms(4,6) by (simp add: a)
  have 3: "\<not> bit (rising (ports s' port)) (unat (digitalPinToPCMSKbit b pin))"
    by (simp add: r bit_and_not_mask del: push_bit_of_1)
  have 4: "\<not> bit (falling (ports s' port)) (unat (digitalPinToPCMSKbit b pin))"
    by (simp add: fl bit_and_not_mask del: push_bit_of_1)
  have 5: "regs s' pcmsk = regs s pcmsk AND NOT (push_bit (unat (digitalPinToPCMSKbit b pin)) 1)"
    using assms(7) by (simp add: rg del: push_bit_of_1)
  have 6: "\<not> bit (regs s' pcmsk) (unat (digitalPinToPCMSKbit b pin))"
    by (simp add: 5 bit_and_not_mask del: push_bit_of_1)
  have 7: "regs s' pcicr =
        (if regs s' pcmsk = 0
         then regs s pcicr AND NOT (push_bit (unat (digitalPinToPCICRbit b pin)) 1)
         else regs s pcicr)"
    unfolding 5 using assms(7) by (simp add: rg del: push_bit_of_1)
  from s' 1 2 3 4 5 6 7 show ?thesis by blast
qed

theorem detachInterrupt_clears_witness:
  "(\<exists>s'. detachInterrupt uno 8 bench = Some s'
     \<and> funcs (ports s' port0) ! 0 = None \<and> args (ports s' port0) ! 0 = None
     \<and> \<not> bit (rising (ports s' port0)) 0 \<and> \<not> bit (falling (ports s' port0)) 0
     \<and> regs s' 107 = 2 \<and> regs s' 104 = 1)
   \<and> (\<exists>s'. detachInterrupt uno 8 (bench\<lparr>regs := (regs bench)(107 := 1)\<rparr>) = Some s'
     \<and> regs s' 107 = 0 \<and> regs s' 104 = 0)"
proof -
  have d: "(104 :: nat) \<noteq> 107" by simp
  have l: "length (funcs (ports (bench\<lparr>regs := (regs bench)(107 := 1)\<rparr>) port0)) = 8"
    "length (args (ports (bench\<lparr>regs := (regs bench)(107 := 1)\<rparr>) port0)) = 8"
    by (simp_all add: bench_port0)
  from detachInterrupt_clears [OF uno_pin8 bench_port0(1,2) d]
    detachInterrupt_clears [OF uno_pin8 l d]
  show ?thesis by (auto simp: uno_pin8_bits bench_port0)
qed

section \<open>Disable, then enable\<close>

text \<open>
  Claim C8. For a pin whose slot holds a callback, \<open>disableInterrupt\<close> followed by
  \<open>enableInterrupt\<close> leaves the group's callbacks, arguments, rising mask and falling mask
  what they were, after the first call and after the second, and delivery is on again:
  the bit in the mask register and the group's bit in \<open>PCICR\<close> are set.
\<close>

theorem disable_then_enable:
  assumes "digitalPinToPCICR b pin = Some pcicr" and "digitalPinToPCMSK b pin = Some pcmsk"
    and "get_port b (digitalPinToPCICRbit b pin) = Some port"
    and "unat (digitalPinToPCMSKbit b pin) < 8"
    and "funcs (ports s port) ! unat (digitalPinToPCMSKbit b pin) = Some f"
  shows "\<exists>s1 s2. disableInterrupt b pin s = Some s1 \<and> enableInterrupt b pin s1 = Some s2
    \<and> funcs (ports s1 port) = funcs (ports s port) \<and> args (ports s1 port) = args (ports s port)
    \<and> rising (ports s1 port) = rising (ports s port)
    \<and> falling (ports s1 port) = falling (ports s port)
    \<and> funcs (ports s2 port) = funcs (ports s port) \<and> args (ports s2 port) = args (ports s port)
    \<and> rising (ports s2 port) = rising (ports s port)
    \<and> falling (ports s2 port) = falling (ports s port)
    \<and> bit (regs s2 pcmsk) (unat (digitalPinToPCMSKbit b pin))
    \<and> bit (regs s2 pcicr) (unat (digitalPinToPCICRbit b pin))"
proof -
  have g: "unat (digitalPinToPCICRbit b pin) < 8"
    using get_port_group_less [OF assms(3)] by simp
  from disableInterrupt_mapped [OF assms(1-3), of s]
  obtain s1 where s1: "disableInterrupt b pin s = Some s1" and p1: "ports s1 = ports s"
    by blast
  have "funcs (ports s1 port) ! unat (digitalPinToPCMSKbit b pin) \<noteq> None"
    using assms(5) by (simp add: p1)
  from enableInterrupt_mapped [OF assms(1-4) this]
  obtain s2 where s2: "enableInterrupt b pin s1 = Some s2"
    and f: "funcs (ports s2 port) = funcs (ports s1 port)"
    and a: "args (ports s2 port) = args (ports s1 port)"
    and r: "rising (ports s2 port) = rising (ports s1 port)"
    and fl: "falling (ports s2 port) = falling (ports s1 port)"
    and rg: "regs s2 =
           ((regs s1)(pcmsk := regs s1 pcmsk OR push_bit (unat (digitalPinToPCMSKbit b pin)) 1))
           (pcicr := ((regs s1)(pcmsk := regs s1 pcmsk OR push_bit (unat (digitalPinToPCMSKbit b pin)) 1)) pcicr
                     OR push_bit (unat (digitalPinToPCICRbit b pin)) 1)"
    by blast
  have 5: "bit (regs s2 pcmsk) (unat (digitalPinToPCMSKbit b pin))"
    using assms(4) by (simp add: rg bit_or_mask del: push_bit_of_1)
  have 6: "bit (regs s2 pcicr) (unat (digitalPinToPCICRbit b pin))"
    using g by (simp add: rg bit_or_mask del: push_bit_of_1)
  from s1 s2 f a r fl 5 6 show ?thesis by (simp add: p1)
qed

theorem disable_then_enable_witness:
  "\<exists>s1 s2. disableInterrupt uno 8 bench = Some s1 \<and> enableInterrupt uno 8 s1 = Some s2
     \<and> funcs (ports s1 port0) = funcs (ports bench port0)
     \<and> args (ports s1 port0) = args (ports bench port0)
     \<and> rising (ports s1 port0) = 3 \<and> falling (ports s1 port0) = 1
     \<and> funcs (ports s2 port0) = funcs (ports bench port0)
     \<and> args (ports s2 port0) = args (ports bench port0)
     \<and> rising (ports s2 port0) = 3 \<and> falling (ports s2 port0) = 1
     \<and> bit (regs s2 107) 0 \<and> bit (regs s2 104) 0"
proof -
  have f: "funcs (ports bench port0) ! unat (digitalPinToPCMSKbit uno 8) = Some ''on_a''"
    by (simp add: uno_pin8_bits bench_port0)
  from disable_then_enable [OF uno_pin8 f]
  show ?thesis by (simp add: uno_pin8_bits bench_port0)
qed

section \<open>The initial port group\<close>

text \<open>
  Claim C9. A port group instance starts with eight null callbacks, eight null arguments,
  snapshot 0 and both mode masks 0. The arguments are null because the instances are
  globals, whose storage is zero before the constructor runs.
\<close>

theorem port_instance_empty:
  "funcs (port_instance :: ('f, 'a) PcIntPort) = replicate 8 None
   \<and> args (port_instance :: ('f, 'a) PcIntPort) = replicate 8 None
   \<and> state (port_instance :: ('f, 'a) PcIntPort) = 0
   \<and> rising (port_instance :: ('f, 'a) PcIntPort) = 0
   \<and> falling (port_instance :: ('f, 'a) PcIntPort) = 0"
  by (simp add: port_instance_def PcIntPort_ctor_def static_storage_def eval_nat_numeral)

section \<open>Attaching with another mode value\<close>

text \<open>
  Claim C10. For a pin that resolves to a group and a bit and a callback that is not null,
  \<open>attachInterrupt\<close> with a mode that is none of \<open>RISING\<close>, \<open>FALLING\<close> and \<open>CHANGE\<close> stores the
  callback and the argument and sets the bit in the mask register, but clears the rising
  and the falling bit of the position: its trigger bit is zero for every snapshot and every
  new value, and a handler run in any machine where both bits are still clear makes no
  call from that slot.
\<close>

theorem attachInterrupt_other_mode:
  assumes "digitalPinToPCICR b pin = Some pcicr" and "digitalPinToPCMSK b pin = Some pcmsk"
    and "get_port b (digitalPinToPCICRbit b pin) = Some port"
    and "unat (digitalPinToPCMSKbit b pin) < 8"
    and "length (funcs (ports s port)) = 8" and "length (args (ports s port)) = 8"
    and "mode \<notin> {RISING b, FALLING b, CHANGE b}"
  shows "\<exists>s'. attachInterrupt b pin (Some f) arg mode s = Some s'
    \<and> funcs (ports s' port) ! unat (digitalPinToPCMSKbit b pin) = Some f
    \<and> args (ports s' port) ! unat (digitalPinToPCMSKbit b pin) = arg
    \<and> bit (regs s' pcmsk) (unat (digitalPinToPCMSKbit b pin))
    \<and> \<not> bit (rising (ports s' port)) (unat (digitalPinToPCMSKbit b pin))
    \<and> \<not> bit (falling (ports s' port)) (unat (digitalPinToPCMSKbit b pin))
    \<and> (\<forall>x v. \<not> bit (trigger_pins ((ports s' port)\<lparr>state := x\<rparr>) v)
                   (unat (digitalPinToPCMSKbit b pin)))
    \<and> (\<forall>call t. \<not> bit (rising (ports t port)) (unat (digitalPinToPCMSKbit b pin))
                \<and> \<not> bit (falling (ports t port)) (unat (digitalPinToPCMSKbit b pin)) \<longrightarrow>
                (\<forall>i \<in> set (snd (ISR call port t)). slot i \<noteq> unat (digitalPinToPCMSKbit b pin)))"
proof -
  from attachInterrupt_mapped [OF assms(1-4), of f arg mode s]
  obtain s' where s': "attachInterrupt b pin (Some f) arg mode s = Some s'"
    and f: "funcs (ports s' port) = (funcs (ports s port))[unat (digitalPinToPCMSKbit b pin) := Some f]"
    and a: "args (ports s' port) = (args (ports s port))[unat (digitalPinToPCMSKbit b pin) := arg]"
    and r: "rising (ports s' port) =
           (if mode = RISING b \<or> mode = CHANGE b
            then rising (ports s port) OR push_bit (unat (digitalPinToPCMSKbit b pin)) 1
            else rising (ports s port) AND NOT (push_bit (unat (digitalPinToPCMSKbit b pin)) 1))"
    and fl: "falling (ports s' port) =
           (if mode = FALLING b \<or> mode = CHANGE b
            then falling (ports s port) OR push_bit (unat (digitalPinToPCMSKbit b pin)) 1
            else falling (ports s port) AND NOT (push_bit (unat (digitalPinToPCMSKbit b pin)) 1))"
    and rg: "regs s' =
           ((regs s)(pcmsk := regs s pcmsk OR push_bit (unat (digitalPinToPCMSKbit b pin)) 1))
           (pcicr := ((regs s)(pcmsk := regs s pcmsk OR push_bit (unat (digitalPinToPCMSKbit b pin)) 1)) pcicr
                     OR push_bit (unat (digitalPinToPCICRbit b pin)) 1)"
    by blast
  have 1: "funcs (ports s' port) ! unat (digitalPinToPCMSKbit b pin) = Some f"
    using assms(4,5) by (simp add: f)
  have 2: "args (ports s' port) ! unat (digitalPinToPCMSKbit b pin) = arg"
    using assms(4,6) by (simp add: a)
  have 3: "bit (regs s' pcmsk) (unat (digitalPinToPCMSKbit b pin))"
    using assms(4) by (simp add: rg bit_or_mask del: push_bit_of_1)
  have 4: "\<not> bit (rising (ports s' port)) (unat (digitalPinToPCMSKbit b pin))"
    using assms(7) by (simp add: r bit_and_not_mask del: push_bit_of_1)
  have 5: "\<not> bit (falling (ports s' port)) (unat (digitalPinToPCMSKbit b pin))"
    using assms(7) by (simp add: fl bit_and_not_mask del: push_bit_of_1)
  have 6: "\<forall>x v. \<not> bit (trigger_pins ((ports s' port)\<lparr>state := x\<rparr>) v)
                   (unat (digitalPinToPCMSKbit b pin))"
    using 4 5 by (simp add: bit_trigger_pins)
  have 7: "\<forall>call t. \<not> bit (rising (ports t port)) (unat (digitalPinToPCMSKbit b pin))
                \<and> \<not> bit (falling (ports t port)) (unat (digitalPinToPCMSKbit b pin)) \<longrightarrow>
                (\<forall>i \<in> set (snd (ISR call port t)). slot i \<noteq> unat (digitalPinToPCMSKbit b pin))"
    using ISR_trace_triggered by (fastforce simp: bit_trigger_pins)
  from s' 1 2 3 4 5 6 7 show ?thesis by blast
qed

theorem attachInterrupt_other_mode_witness:
  "\<exists>s'. attachInterrupt uno 8 (Some ''on_c'') (Some 5) 0 bench = Some s'
    \<and> funcs (ports s' port0) ! 0 = Some ''on_c''
    \<and> args (ports s' port0) ! 0 = Some 5
    \<and> bit (regs s' 107) 0
    \<and> \<not> bit (rising (ports s' port0)) 0
    \<and> \<not> bit (falling (ports s' port0)) 0
    \<and> \<not> bit (trigger_pins ((ports s' port0)\<lparr>state := 0\<rparr>) 1) 0
    \<and> (\<forall>i \<in> set (snd (ISR count_calls port0 s')). slot i \<noteq> 0)"
proof -
  have m: "(0 :: u8) \<notin> {RISING uno, FALLING uno, CHANGE uno}"
    by (simp add: uno_def)
  from attachInterrupt_other_mode [OF uno_pin8 bench_port0(1,2) m, of "''on_c''" "Some 5"]
  show ?thesis unfolding uno_pin8_bits by blast
qed

end
